theory Spec2Isabelle
  imports Main
begin

section \<open>JavaScript values\<close>

text \<open>
  The request gateway of \<^verbatim>\<open>web/src/services/api.ts\<close> passes values of type \<^verbatim>\<open>any\<close>
  around (request bodies, decoded responses, caught errors). They are modelled by one
  datatype. A finite Number is modelled on its integer values, and \<open>JNum n\<close> stands for a
  Number only when \<open>n\<close> is a safe integer (\<open>safe_integer\<close> below): a Number holds those
  exactly and prints them in plain decimal. \<^verbatim>\<open>NaN\<close> and the two infinities are values of
  their own; a Number with a fraction is floating point and stays outside the model. A
  string is a list of code units below 256; an object is the list of its own enumerable
  properties in enumeration order; a Blob is its media type and its bytes; an Error
  object is its name and message; a function and a symbol are their names; a Date is a
  valid one, given by the ISO text that its \<^verbatim>\<open>toJSON\<close> returns.

  Two kinds of value of the language have no place in the datatype: a BigInt and an
  object that contains itself. \<^verbatim>\<open>JSON.stringify\<close> throws a \<^verbatim>\<open>TypeError\<close> on both, so a
  dispatch with such a body fails before any request is made. The properties below speak
  of the bodies that the datatype holds.
\<close>

record blob =
  blob_type :: string
  blob_data :: string

datatype jsval =
    JUndefined
  | JNull
  | JBool bool
  | JNum int
  | JStr string
  | JArr "jsval list"
  | JObj "(string \<times> jsval) list"
  | JBlob blob
  | JError string string
  | JNaN
  | JInfinity
  | JNegInfinity
  | JFunction string
  | JSymbol string
  | JDate string

definition safe_integer :: "int \<Rightarrow> bool" where
  "safe_integer n \<longleftrightarrow> \<bar>n\<bar> \<le> 9007199254740991"

text \<open>\<^verbatim>\<open>ToBoolean\<close>: what \<^verbatim>\<open>v ? a : b\<close>, \<^verbatim>\<open>!v\<close> and \<^verbatim>\<open>v || d\<close> test.\<close>

fun truthy :: "jsval \<Rightarrow> bool" where
  "truthy JUndefined = False"
| "truthy JNull = False"
| "truthy (JBool b) = b"
| "truthy (JNum n) = (n \<noteq> 0)"
| "truthy (JStr s) = (s \<noteq> [])"
| "truthy (JArr vs) = True"
| "truthy (JObj kvs) = True"
| "truthy (JBlob b) = True"
| "truthy (JError n m) = True"
| "truthy JNaN = False"
| "truthy JInfinity = True"
| "truthy JNegInfinity = True"
| "truthy (JFunction f) = True"
| "truthy (JSymbol d) = True"
| "truthy (JDate t) = True"


text \<open>\<^verbatim>\<open>new Error(message)\<close>\<close>

definition new_Error :: "string \<Rightarrow> jsval" where
  "new_Error message = JError ''Error'' message"

text \<open>\<^verbatim>\<open>String.prototype.startsWith\<close>\<close>

fun startsWith :: "string \<Rightarrow> string \<Rightarrow> bool" where
  "startsWith s [] = True"
| "startsWith [] (p # ps) = False"
| "startsWith (c # cs) (p # ps) = (c = p \<and> startsWith cs ps)"

subsection \<open>Numbers and strings as text\<close>

definition digit_char :: "nat \<Rightarrow> char" where
  "digit_char d = ''0123456789abcdef'' ! d"

definition upper_hex_char :: "nat \<Rightarrow> char" where
  "upper_hex_char d = ''0123456789ABCDEF'' ! d"

function show_nat :: "nat \<Rightarrow> string" where
  "show_nat n = (if n < 10 then [digit_char n] else show_nat (n div 10) @ [digit_char (n mod 10)])"
  by pat_completeness auto
termination
  by (relation "measure (\<lambda>n. n)") auto

declare show_nat.simps [simp del]

text \<open>\<^verbatim>\<open>Number.prototype.toString\<close> on an integer value, as a template literal and
  \<^verbatim>\<open>JSON.stringify\<close> print it. It is the runtime's text for the safe integers (from
  \<^verbatim>\<open>1e21\<close> on the runtime writes an exponent).\<close>

definition Number_toString :: "int \<Rightarrow> string" where
  "Number_toString n = (if n < 0 then CHR ''-'' # show_nat (nat (- n)) else show_nat (nat n))"

text \<open>\<^verbatim>\<open>encodeURIComponent\<close>: the unreserved characters stay, every other code unit is
  written as the percent-escaped bytes of its UTF-8 form.\<close>

definition uri_unreserved :: "char \<Rightarrow> bool" where
  "uri_unreserved c \<longleftrightarrow>
     c \<in> set ''ABCDEFGHIJKLMNOPQRSTUVWXYZabcdefghijklmnopqrstuvwxyz0123456789-_.!~*()''
     \<or> c = CHR 0x27"

definition percent_byte :: "nat \<Rightarrow> string" where
  "percent_byte b = [CHR ''%'', upper_hex_char (b div 16), upper_hex_char (b mod 16)]"

definition encode_unit :: "char \<Rightarrow> string" where
  "encode_unit c =
     (let n = (of_char c :: nat) in
      if uri_unreserved c then [c]
      else if n < 128 then percent_byte n
      else percent_byte (192 + n div 64) @ percent_byte (128 + n mod 64))"

definition encodeURIComponent :: "string \<Rightarrow> string" where
  "encodeURIComponent s = concat (map encode_unit s)"

subsection \<open>\<^verbatim>\<open>JSON.stringify\<close>\<close>

definition json_escape :: "char \<Rightarrow> string" where
  "json_escape c =
     (let n = (of_char c :: nat) in
      if c = CHR 0x22 then [CHR 0x5C, CHR 0x22]
      else if c = CHR 0x5C then [CHR 0x5C, CHR 0x5C]
      else if c = CHR 0x08 then [CHR 0x5C, CHR ''b'']
      else if c = CHR 0x0C then [CHR 0x5C, CHR ''f'']
      else if c = CHR 0x0A then [CHR 0x5C, CHR ''n'']
      else if c = CHR 0x0D then [CHR 0x5C, CHR ''r'']
      else if c = CHR 0x09 then [CHR 0x5C, CHR ''t'']
      else if n < 32 then [CHR 0x5C, CHR ''u'', CHR ''0'', CHR ''0'', digit_char (n div 16), digit_char (n mod 16)]
      else [c])"

definition QuoteJSONString :: "string \<Rightarrow> string" where
  "QuoteJSONString s = CHR 0x22 # concat (map json_escape s) @ [CHR 0x22]"

text \<open>\<^verbatim>\<open>Array.prototype.join(',')\<close> on texts.\<close>

fun join_comma :: "string list \<Rightarrow> string" where
  "join_comma [] = []"
| "join_comma [s] = s"
| "join_comma (s # t # ts) = s @ CHR '','' # join_comma (t # ts)"

text \<open>
  \<^verbatim>\<open>JSON.stringify(v)\<close> with no replacer and no indentation. The result \<open>None\<close> is the
  JavaScript \<^verbatim>\<open>undefined\<close> that the function returns for \<^verbatim>\<open>undefined\<close>, for a function and
  for a symbol. Inside an array such an element is written \<^verbatim>\<open>null\<close>; inside an object such
  a property is left out. \<^verbatim>\<open>NaN\<close> and the infinities are written \<^verbatim>\<open>null\<close>. A Blob and an
  Error have no enumerable own property and no \<^verbatim>\<open>toJSON\<close>; a Date is written as the
  string that its \<^verbatim>\<open>toJSON\<close> returns.
\<close>

fun JSON_stringify :: "jsval \<Rightarrow> string option"
  and stringify_elements :: "jsval list \<Rightarrow> string list"
  and stringify_properties :: "(string \<times> jsval) list \<Rightarrow> string list" where
  "JSON_stringify JUndefined = None"
| "JSON_stringify JNull = Some ''null''"
| "JSON_stringify (JBool b) = Some (if b then ''true'' else ''false'')"
| "JSON_stringify (JNum n) = Some (Number_toString n)"
| "JSON_stringify (JStr s) = Some (QuoteJSONString s)"
| "JSON_stringify (JArr vs) = Some (CHR ''['' # join_comma (stringify_elements vs) @ '']'')"
| "JSON_stringify (JObj kvs) = Some (CHR ''{'' # join_comma (stringify_properties kvs) @ ''}'')"
| "JSON_stringify (JBlob b) = Some ''{}''"
| "JSON_stringify (JError n m) = Some ''{}''"
| "JSON_stringify JNaN = Some ''null''"
| "JSON_stringify JInfinity = Some ''null''"
| "JSON_stringify JNegInfinity = Some ''null''"
| "JSON_stringify (JFunction f) = None"
| "JSON_stringify (JSymbol d) = None"
| "JSON_stringify (JDate t) = Some (QuoteJSONString t)"
| "stringify_elements [] = []"
| "stringify_elements (v # vs) =
     (case JSON_stringify v of None \<Rightarrow> ''null'' | Some s \<Rightarrow> s) # stringify_elements vs"
| "stringify_properties [] = []"
| "stringify_properties ((k, v) # kvs) =
     (case JSON_stringify v of
        None \<Rightarrow> stringify_properties kvs
      | Some s \<Rightarrow> (QuoteJSONString k @ CHR '':'' # s) # stringify_properties kvs)"

subsection \<open>\<^verbatim>\<open>JSON.parse\<close>\<close>

definition is_ws :: "char \<Rightarrow> bool" where
  "is_ws c \<longleftrightarrow> c = CHR 0x20 \<or> c = CHR 0x09 \<or> c = CHR 0x0A \<or> c = CHR 0x0D"

definition skip_ws :: "string \<Rightarrow> string" where
  "skip_ws s = dropWhile is_ws s"

definition is_digit :: "char \<Rightarrow> bool" where
  "is_digit c \<longleftrightarrow> c \<in> set ''0123456789''"

definition hex_val :: "char \<Rightarrow> nat option" where
  "hex_val c = map_of
     [(CHR ''0'', 0), (CHR ''1'', 1), (CHR ''2'', 2), (CHR ''3'', 3), (CHR ''4'', 4),
      (CHR ''5'', 5), (CHR ''6'', 6), (CHR ''7'', 7), (CHR ''8'', 8), (CHR ''9'', 9),
      (CHR ''a'', 10), (CHR ''b'', 11), (CHR ''c'', 12), (CHR ''d'', 13), (CHR ''e'', 14),
      (CHR ''f'', 15), (CHR ''A'', 10), (CHR ''B'', 11), (CHR ''C'', 12), (CHR ''D'', 13),
      (CHR ''E'', 14), (CHR ''F'', 15)] c"

definition digits_val :: "string \<Rightarrow> nat" where
  "digits_val ds = foldl (\<lambda>a c. 10 * a + (of_char c - 48)) 0 ds"

text \<open>
  A number token of the JSON grammar: an optional minus sign, then \<^verbatim>\<open>0\<close> or a digit
  string without leading zero. A fraction or an exponent after it denotes a Number outside
  the integer fragment of the model, and the result is \<open>None\<close> as for a syntax error.
\<close>

definition parse_number :: "string \<Rightarrow> (jsval \<times> string) option" where
  "parse_number s =
     (let neg = (s \<noteq> [] \<and> hd s = CHR ''-'');
          s1 = (if neg then tl s else s)
      in case s1 of
           [] \<Rightarrow> None
         | d # ds \<Rightarrow>
             if \<not> is_digit d then None
             else
               let ints = (if d = CHR ''0'' then [d] else takeWhile is_digit s1);
                   rest = (if d = CHR ''0'' then ds else dropWhile is_digit s1)
               in if rest \<noteq> [] \<and> hd rest \<in> set ''.eE'' then None
                  else Some (JNum ((if neg then - 1 else 1) * int (digits_val ints)), rest))"

text \<open>The characters of a string token after its opening quote, up to the closing one.
  An escape \<^verbatim>\<open>\uXXXX\<close> of a code unit from 256 on lies outside the strings of the model and
  gives \<open>None\<close>.\<close>

fun parse_chars :: "string \<Rightarrow> (string \<times> string) option" where
  "parse_chars [] = None"
| "parse_chars (c # cs) =
     (if c = CHR 0x22 then Some ([], cs)
      else if c = CHR 0x5C then
        (case cs of
           [] \<Rightarrow> None
         | e # r \<Rightarrow>
             if e = CHR ''u'' then
               (case r of
                  h1 # h2 # h3 # h4 # r' \<Rightarrow>
                    (case (hex_val h1, hex_val h2, hex_val h3, hex_val h4) of
                       (Some a, Some b, Some c, Some d) \<Rightarrow>
                         if a = 0 \<and> b = 0
                         then map_option (\<lambda>(s, t). (char_of (16 * c + d) # s, t)) (parse_chars r')
                         else None
                     | _ \<Rightarrow> None)
                | _ \<Rightarrow> None)
             else
               (case map_of
                       [(CHR 0x22, CHR 0x22), (CHR 0x5C, CHR 0x5C), (CHR ''/'', CHR ''/''),
                        (CHR ''b'', CHR 0x08), (CHR ''f'', CHR 0x0C), (CHR ''n'', CHR 0x0A),
                        (CHR ''r'', CHR 0x0D), (CHR ''t'', CHR 0x09)] e of
                  None \<Rightarrow> None
                | Some x \<Rightarrow> map_option (\<lambda>(s, t). (x # s, t)) (parse_chars r)))
      else if (of_char c :: nat) < 32 then None
      else map_option (\<lambda>(s, t). (c # s, t)) (parse_chars cs))"

text \<open>\<^verbatim>\<open>CreateDataProperty\<close> on the property list: a repeated key keeps its place
  and takes the later value. (The placement of integer-like keys before the others is not
  modelled.)\<close>

fun set_property :: "(string \<times> jsval) list \<Rightarrow> string \<Rightarrow> jsval \<Rightarrow> (string \<times> jsval) list" where
  "set_property [] k v = [(k, v)]"
| "set_property ((k', v') # kvs) k v =
     (if k' = k then (k, v) # kvs else (k', v') # set_property kvs k v)"

text \<open>
  The recursive-descent parser. The first argument bounds the depth of the calls;
  \<open>JSON_parse\<close> starts it with twice the length of the text and two more (along a chain of
  calls, every second one has consumed a character). Lemma \<open>JSON_roundtrip\<close> below shows
  that this is enough for every text that \<open>JSON_stringify\<close> writes for a value of JSON.
\<close>

fun parse_value :: "nat \<Rightarrow> string \<Rightarrow> (jsval \<times> string) option"
  and parse_elements :: "nat \<Rightarrow> jsval list \<Rightarrow> string \<Rightarrow> (jsval \<times> string) option"
  and parse_members :: "nat \<Rightarrow> (string \<times> jsval) list \<Rightarrow> string \<Rightarrow> (jsval \<times> string) option" where
  "parse_value 0 s = None"
| "parse_value (Suc n) s =
     (case skip_ws s of
        [] \<Rightarrow> None
      | c # cs \<Rightarrow>
          if c = CHR ''n'' then (if startsWith cs ''ull'' then Some (JNull, drop 3 cs) else None)
          else if c = CHR ''t'' then (if startsWith cs ''rue'' then Some (JBool True, drop 3 cs) else None)
          else if c = CHR ''f'' then (if startsWith cs ''alse'' then Some (JBool False, drop 4 cs) else None)
          else if c = CHR 0x22 then map_option (\<lambda>(str, r). (JStr str, r)) (parse_chars cs)
          else if c = CHR ''['' then
            (case skip_ws cs of
               [] \<Rightarrow> None
             | d # ds \<Rightarrow> if d = CHR '']'' then Some (JArr [], ds) else parse_elements n [] cs)
          else if c = CHR ''{'' then
            (case skip_ws cs of
               [] \<Rightarrow> None
             | d # ds \<Rightarrow> if d = CHR ''}'' then Some (JObj [], ds) else parse_members n [] cs)
          else parse_number (c # cs))"
| "parse_elements 0 acc s = None"
| "parse_elements (Suc n) acc s =
     (case parse_value n s of
        None \<Rightarrow> None
      | Some (v, r) \<Rightarrow>
          (case skip_ws r of
             [] \<Rightarrow> None
           | c # cs \<Rightarrow>
               if c = CHR '','' then parse_elements n (acc @ [v]) cs
               else if c = CHR '']'' then Some (JArr (acc @ [v]), cs)
               else None))"
| "parse_members 0 acc s = None"
| "parse_members (Suc n) acc s =
     (case skip_ws s of
        [] \<Rightarrow> None
      | q # s1 \<Rightarrow>
          if q \<noteq> CHR 0x22 then None
          else
            (case parse_chars s1 of
               None \<Rightarrow> None
             | Some (k, s2) \<Rightarrow>
                 (case skip_ws s2 of
                    [] \<Rightarrow> None
                  | c # s3 \<Rightarrow>
                      if c \<noteq> CHR '':'' then None
                      else
                        (case parse_value n s3 of
                           None \<Rightarrow> None
                         | Some (v, r) \<Rightarrow>
                             (case skip_ws r of
                                [] \<Rightarrow> None
                              | d # ds \<Rightarrow>
                                  if d = CHR '','' then parse_members n (set_property acc k v) ds
                                  else if d = CHR ''}'' then Some (JObj (set_property acc k v), ds)
                                  else None)))))"

text \<open>\<^verbatim>\<open>JSON.parse(text)\<close> with no reviver; \<open>None\<close> is the thrown \<^verbatim>\<open>SyntaxError\<close>.\<close>

definition JSON_parse :: "string \<Rightarrow> jsval option" where
  "JSON_parse s =
     (case parse_value (2 * length s + 2) s of
        None \<Rightarrow> None
      | Some (v, r) \<Rightarrow> if skip_ws r = [] then Some v else None)"

text \<open>\<^verbatim>\<open>Object.entries(v)\<close>; \<open>None\<close> is the \<^verbatim>\<open>TypeError\<close> thrown for \<^verbatim>\<open>undefined\<close> and
  \<^verbatim>\<open>null\<close>.\<close>

fun Object_entries :: "jsval \<Rightarrow> jsval option" where
  "Object_entries JUndefined = None"
| "Object_entries JNull = None"
| "Object_entries (JObj kvs) = Some (JArr (map (\<lambda>(k, v). JArr [JStr k, v]) kvs))"
| "Object_entries (JArr vs) =
     Some (JArr (map (\<lambda>(i, v). JArr [JStr (show_nat i), v]) (zip [0 ..< length vs] vs)))"
| "Object_entries (JStr s) =
     Some (JArr (map (\<lambda>(i, c). JArr [JStr (show_nat i), JStr [c]]) (zip [0 ..< length s] s)))"
| "Object_entries v = Some (JArr [])"

section \<open>The request gateway\<close>

subsection \<open>Data\<close>

text \<open>\<^verbatim>\<open>FetchOptions\<close>. An optional field that is absent is \<open>None\<close>; an absent body is
  \<^verbatim>\<open>undefined\<close>. (The field \<^verbatim>\<open>method\<close> carries a prime: its name is a keyword here.)\<close>

datatype http_method = GET | POST | PUT | DELETE | PATCH

record FetchOptions =
  method' :: "http_method option"
  isJSON :: "bool option"
  headers :: "(string \<rightharpoonup> string) option"
  body :: jsval

definition no_options :: FetchOptions where
  "no_options = \<lparr>method' = None, isJSON = None, headers = None, body = JUndefined\<rparr>"

text \<open>What the gateway hands to the runtime's \<^verbatim>\<open>fetch(path, init)\<close>.\<close>

datatype body_init = BlobBody blob | TextBody string

record request =
  req_path :: string
  req_method :: http_method
  req_headers :: "string \<rightharpoonup> string"
  req_credentials :: string
  req_body :: "body_init option"

text \<open>The \<^verbatim>\<open>Response\<close> of the runtime: status, status text and the body as
  \<^verbatim>\<open>response.text()\<close> reads it.\<close>

record response =
  status :: nat
  statusText :: string
  text_body :: string

text \<open>
  \<^verbatim>\<open>User.State\<close> and \<^verbatim>\<open>Locale.State\<close> are declared outside this file. The gateway reads
  \<^verbatim>\<open>user.userId\<close> (a string) and tests \<^verbatim>\<open>user.account\<close> for truthiness; the locale is a
  string or \<^verbatim>\<open>null\<close>. A user state is an object owned by the caller: the gateway holds a
  reference to it. Gateway instances live in a heap of their own, addressed by position.
\<close>

record User_State =
  userId :: string
  account :: jsval

type_synonym ref = nat

record API =
  API_locale :: "string option"
  API_user :: ref

text \<open>The globals of the page and the constant imported from the root store.\<close>

record env =
  location_origin :: string
  USER_KEY :: string
  transport :: "request \<Rightarrow> jsval + response"

datatype event = Fetch request | RemoveItem string | Reload

record world =
  localStorage :: "string \<rightharpoonup> string"
  events :: "event list"
  user_states :: "ref \<Rightarrow> User_State"
  gateways :: "API list"

text \<open>A settled promise.\<close>

datatype outcome = Resolved jsval | Rejected jsval

definition API_PATH :: "env \<Rightarrow> string" where
  "API_PATH e = location_origin e @ ''/api/v1''"

subsection \<open>Dispatch: \<^verbatim>\<open>API.fetch\<close>\<close>

definition finalHeaders :: "env \<Rightarrow> world \<Rightarrow> API \<Rightarrow> string \<Rightarrow> FetchOptions \<Rightarrow> (string \<rightharpoonup> string)" where
  "finalHeaders e w this path options =
     (let isJSON' = (case isJSON options of None \<Rightarrow> True | Some b \<Rightarrow> b);
          merged =
            (if isJSON' then [''Content-Type'' \<mapsto> ''application/json; charset=utf-8''] else Map.empty)
            ++ (case headers options of None \<Rightarrow> Map.empty | Some h \<Rightarrow> h)
      in if startsWith path (location_origin e) \<and> \<not> truthy (account (user_states w (API_user this)))
         then merged(''client_id'' \<mapsto> userId (user_states w (API_user this)))
         else merged)"

definition encode_body :: "jsval \<Rightarrow> body_init option" where
  "encode_body b =
     (if truthy b
      then (case b of JBlob bl \<Rightarrow> Some (BlobBody bl) | _ \<Rightarrow> map_option TextBody (JSON_stringify b))
      else None)"

definition build_request :: "env \<Rightarrow> world \<Rightarrow> API \<Rightarrow> string \<Rightarrow> FetchOptions \<Rightarrow> request" where
  "build_request e w this path options =
     \<lparr>req_path = path,
      req_method = (case method' options of None \<Rightarrow> GET | Some m \<Rightarrow> m),
      req_headers = finalHeaders e w this path options,
      req_credentials = ''same-origin'',
      req_body = encode_body (body options)\<rparr>"

text \<open>\<^verbatim>\<open>response.json()\<close>\<close>

definition response_json :: "response \<Rightarrow> outcome" where
  "response_json r =
     (case JSON_parse (text_body r) of
        None \<Rightarrow> Rejected (JError ''SyntaxError'' ''JSON.parse'')
      | Some v \<Rightarrow> Resolved v)"

definition fetch :: "env \<Rightarrow> API \<Rightarrow> string \<Rightarrow> FetchOptions \<Rightarrow> world \<Rightarrow> outcome \<times> world" where
  "fetch e this path options w =
     (let req = build_request e w this path options;
          w1 = w\<lparr>events := events w @ [Fetch req]\<rparr>
      in case transport e req of
           Inl reason \<Rightarrow> (Rejected reason, w1)
         | Inr response \<Rightarrow>
             if status response = 401 then
               (Resolved JUndefined,
                w1\<lparr>localStorage := (localStorage w1)(USER_KEY e := None),
                   events := events w1 @ [RemoveItem (USER_KEY e), Reload]\<rparr>)
             else if status response \<ge> 400 then
               (if statusText response = ''save_clip_error''
                then (Rejected (new_Error (statusText response)), w1)
                else (Rejected (new_Error (text_body response)), w1))
             else if (case isJSON options of None \<Rightarrow> True | Some b \<Rightarrow> b)
             then (response_json response, w1)
             else (Resolved (JStr (text_body response)), w1))"

subsection \<open>Instances and path helpers\<close>

text \<open>
  A method body is modelled on the field values of its receiver: both fields are
  \<^verbatim>\<open>private readonly\<close>. \<^verbatim>\<open>new API(locale, user)\<close> puts a new object at the end of the
  heap of gateways; \<^verbatim>\<open>forLocale\<close> is the one method that creates an object. It yields
  \<open>None\<close> when its receiver is no object of the heap.
\<close>

definition new_API :: "string option \<Rightarrow> ref \<Rightarrow> world \<Rightarrow> ref \<times> world" where
  "new_API l u w =
     (length (gateways w), w\<lparr>gateways := gateways w @ [\<lparr>API_locale = l, API_user = u\<rparr>]\<rparr>)"

definition forLocale :: "ref \<Rightarrow> string \<Rightarrow> world \<Rightarrow> (ref \<times> world) option" where
  "forLocale this l w =
     (if this < length (gateways w)
      then Some (new_API (Some l) (API_user (gateways w ! this)) w)
      else None)"

text \<open>Truthiness of a string that may be \<^verbatim>\<open>null\<close> or \<^verbatim>\<open>undefined\<close>.\<close>

fun truthy_string :: "string option \<Rightarrow> bool" where
  "truthy_string None = False"
| "truthy_string (Some s) = (s \<noteq> [])"

definition getLocalePath :: "env \<Rightarrow> API \<Rightarrow> string" where
  "getLocalePath e this =
     (if truthy_string (API_locale this) then API_PATH e @ ''/'' @ the (API_locale this)
      else API_PATH e)"

definition getClipPath :: "env \<Rightarrow> API \<Rightarrow> string" where
  "getClipPath e this = getLocalePath e this @ ''/clips''"

text \<open>\<^verbatim>\<open>(locale ? '/' + locale : '')\<close>\<close>

definition locale_segment :: "string option \<Rightarrow> string" where
  "locale_segment l = (if truthy_string l then ''/'' @ the l else [])"

subsection \<open>Promise plumbing\<close>

definition then_promise :: "outcome \<times> world \<Rightarrow> (jsval \<Rightarrow> outcome) \<Rightarrow> outcome \<times> world" where
  "then_promise p f = (case fst p of Resolved v \<Rightarrow> (f v, snd p) | Rejected r \<Rightarrow> (Rejected r, snd p))"

definition catch_promise :: "outcome \<times> world \<Rightarrow> (jsval \<Rightarrow> outcome) \<Rightarrow> outcome \<times> world" where
  "catch_promise p f = (case fst p of Resolved v \<Rightarrow> (Resolved v, snd p) | Rejected r \<Rightarrow> (f r, snd p))"

text \<open>\<^verbatim>\<open>JSON.parse(v)\<close> as a promise callback. The argument is the text of a response, or
  \<^verbatim>\<open>undefined\<close> after a 401, which is read as the text \<^verbatim>\<open>undefined\<close>.\<close>

definition JSON_parse_callback :: "jsval \<Rightarrow> outcome" where
  "JSON_parse_callback v =
     (case (case v of JStr s \<Rightarrow> JSON_parse s | _ \<Rightarrow> None) of
        None \<Rightarrow> Rejected (JError ''SyntaxError'' ''JSON.parse'')
      | Some x \<Rightarrow> Resolved x)"

definition Object_entries_callback :: "jsval \<Rightarrow> outcome" where
  "Object_entries_callback v =
     (case Object_entries v of
        None \<Rightarrow> Rejected (JError ''TypeError'' ''Object.entries'')
      | Some x \<Rightarrow> Resolved x)"

subsection \<open>Endpoint methods\<close>

definition count_or_default :: "int option \<Rightarrow> int" where
  "count_or_default count = (case count of None \<Rightarrow> 1 | Some c \<Rightarrow> c)"

definition fetchRandomSentences :: "env \<Rightarrow> API \<Rightarrow> int option \<Rightarrow> world \<Rightarrow> outcome \<times> world" where
  "fetchRandomSentences e this count =
     fetch e this (getLocalePath e this @ ''/sentences?count='' @ Number_toString (count_or_default count))
       no_options"

definition fetchRandomClips :: "env \<Rightarrow> API \<Rightarrow> int option \<Rightarrow> world \<Rightarrow> outcome \<times> world" where
  "fetchRandomClips e this count =
     fetch e this (getClipPath e this @ ''?count='' @ Number_toString (count_or_default count))
       no_options"

definition uploadClip :: "env \<Rightarrow> API \<Rightarrow> blob \<Rightarrow> string \<Rightarrow> string \<Rightarrow> world \<Rightarrow> outcome \<times> world" where
  "uploadClip e this b sentenceId sentence =
     fetch e this (getClipPath e this)
       \<lparr>method' = Some POST, isJSON = None,
        headers = Some [''Content-Type'' \<mapsto> blob_type b,
                        ''sentence'' \<mapsto> encodeURIComponent sentence,
                        ''sentence_id'' \<mapsto> sentenceId],
        body = JBlob b\<rparr>"

definition saveVote :: "env \<Rightarrow> API \<Rightarrow> string \<Rightarrow> bool \<Rightarrow> world \<Rightarrow> outcome \<times> world" where
  "saveVote e this id' isValid =
     fetch e this (getClipPath e this @ ''/'' @ id' @ ''/votes'')
       \<lparr>method' = Some POST, isJSON = None, headers = None,
        body = JObj [(''isValid'', JBool isValid)]\<rparr>"

definition fetchValidatedHours :: "env \<Rightarrow> API \<Rightarrow> world \<Rightarrow> outcome \<times> world" where
  "fetchValidatedHours e this = fetch e this (getClipPath e this @ ''/validated_hours'') no_options"

definition fetchDailyClipsCount :: "env \<Rightarrow> API \<Rightarrow> world \<Rightarrow> outcome \<times> world" where
  "fetchDailyClipsCount e this = fetch e this (getClipPath e this @ ''/daily_count'') no_options"

definition fetchDailyVotesCount :: "env \<Rightarrow> API \<Rightarrow> world \<Rightarrow> outcome \<times> world" where
  "fetchDailyVotesCount e this = fetch e this (getClipPath e this @ ''/votes/daily_count'') no_options"

definition fetchLocaleMessages :: "env \<Rightarrow> API \<Rightarrow> string \<Rightarrow> world \<Rightarrow> outcome \<times> world" where
  "fetchLocaleMessages e this l =
     fetch e this (''/locales/'' @ l @ ''/messages.ftl'')
       \<lparr>method' = None, isJSON = Some False, headers = None, body = JUndefined\<rparr>"

definition fetchCrossLocaleMessages :: "env \<Rightarrow> API \<Rightarrow> world \<Rightarrow> outcome \<times> world" where
  "fetchCrossLocaleMessages e this w =
     then_promise (fetch e this ''/cross-locale-messages.json'' no_options w) Object_entries_callback"

definition fetchRequestedLanguages :: "env \<Rightarrow> API \<Rightarrow> world \<Rightarrow> outcome \<times> world" where
  "fetchRequestedLanguages e this = fetch e this (API_PATH e @ ''/requested_languages'') no_options"

definition requestLanguage :: "env \<Rightarrow> API \<Rightarrow> string \<Rightarrow> world \<Rightarrow> outcome \<times> world" where
  "requestLanguage e this language =
     fetch e this (API_PATH e @ ''/requested_languages'')
       \<lparr>method' = Some POST, isJSON = None, headers = None,
        body = JObj [(''language'', JStr language)]\<rparr>"

definition fetchLanguageStats :: "env \<Rightarrow> API \<Rightarrow> world \<Rightarrow> outcome \<times> world" where
  "fetchLanguageStats e this = fetch e this (API_PATH e @ ''/language_stats'') no_options"

text \<open>The template literal prints a \<^verbatim>\<open>null\<close> locale as the text \<^verbatim>\<open>null\<close>.\<close>

datatype document_name = doc_privacy | doc_terms

definition fetchDocument :: "env \<Rightarrow> API \<Rightarrow> document_name \<Rightarrow> world \<Rightarrow> outcome \<times> world" where
  "fetchDocument e this name =
     fetch e this
       (''/'' @ (case name of doc_privacy \<Rightarrow> ''privacy'' | doc_terms \<Rightarrow> ''terms'') @ ''/''
          @ (case API_locale this of None \<Rightarrow> ''null'' | Some l \<Rightarrow> l) @ ''.html'')
       \<lparr>method' = None, isJSON = Some False, headers = None, body = JUndefined\<rparr>"

definition skipSentence :: "env \<Rightarrow> API \<Rightarrow> string \<Rightarrow> world \<Rightarrow> outcome \<times> world" where
  "skipSentence e this id' =
     fetch e this (API_PATH e @ ''/skipped_sentences/'' @ id')
       \<lparr>method' = Some POST, isJSON = None, headers = None, body = JUndefined\<rparr>"

definition fetchClipsStats :: "env \<Rightarrow> API \<Rightarrow> string option \<Rightarrow> world \<Rightarrow> outcome \<times> world" where
  "fetchClipsStats e this l =
     fetch e this (API_PATH e @ locale_segment l @ ''/clips/stats'') no_options"

definition fetchClipVoices :: "env \<Rightarrow> API \<Rightarrow> string option \<Rightarrow> world \<Rightarrow> outcome \<times> world" where
  "fetchClipVoices e this l =
     fetch e this (API_PATH e @ locale_segment l @ ''/clips/voices'') no_options"

datatype activity_from = from_you | from_everyone

definition fetchContributionActivity ::
    "env \<Rightarrow> API \<Rightarrow> activity_from \<Rightarrow> string option \<Rightarrow> world \<Rightarrow> outcome \<times> world" where
  "fetchContributionActivity e this from' l =
     fetch e this
       (API_PATH e @ locale_segment l @ ''/contribution_activity?from=''
          @ (case from' of from_you \<Rightarrow> ''you'' | from_everyone \<Rightarrow> ''everyone''))
       no_options"

definition fetchUserClients :: "env \<Rightarrow> API \<Rightarrow> world \<Rightarrow> outcome \<times> world" where
  "fetchUserClients e this = fetch e this (API_PATH e @ ''/user_clients'') no_options"

definition fetchAccount :: "env \<Rightarrow> API \<Rightarrow> world \<Rightarrow> outcome \<times> world" where
  "fetchAccount e this = fetch e this (API_PATH e @ ''/user_client'') no_options"

definition saveAccount :: "env \<Rightarrow> API \<Rightarrow> jsval \<Rightarrow> world \<Rightarrow> outcome \<times> world" where
  "saveAccount e this data =
     fetch e this (API_PATH e @ ''/user_client'')
       \<lparr>method' = Some PATCH, isJSON = None, headers = None, body = data\<rparr>"

definition subscribeToNewsletter :: "env \<Rightarrow> API \<Rightarrow> string \<Rightarrow> world \<Rightarrow> outcome \<times> world" where
  "subscribeToNewsletter e this email =
     fetch e this (API_PATH e @ ''/newsletter/'' @ email)
       \<lparr>method' = Some POST, isJSON = None, headers = None, body = JUndefined\<rparr>"

datatype avatar_type = avatar_default | avatar_file | avatar_gravatar

definition saveAvatar :: "env \<Rightarrow> API \<Rightarrow> avatar_type \<Rightarrow> blob option \<Rightarrow> world \<Rightarrow> outcome \<times> world" where
  "saveAvatar e this type' f w =
     then_promise
       (fetch e this
          (API_PATH e @ ''/user_client/avatar/''
             @ (case type' of avatar_default \<Rightarrow> ''default'' | avatar_file \<Rightarrow> ''file''
                | avatar_gravatar \<Rightarrow> ''gravatar''))
          \<lparr>method' = Some POST, isJSON = Some False, headers = None,
           body = (case f of None \<Rightarrow> JUndefined | Some b \<Rightarrow> JBlob b)\<rparr>
          w)
       JSON_parse_callback"

definition saveAvatarClip :: "env \<Rightarrow> API \<Rightarrow> blob \<Rightarrow> world \<Rightarrow> outcome \<times> world" where
  "saveAvatarClip e this b w =
     catch_promise
       (then_promise
          (fetch e this (API_PATH e @ ''/user_client/avatar_clip'')
             \<lparr>method' = Some POST, isJSON = None,
              headers = Some [''Content-Type'' \<mapsto> blob_type b],
              body = JBlob b\<rparr>
             w)
          (\<lambda>body. Resolved body))
       (\<lambda>err. Resolved err)"

definition fetchAvatarClip :: "env \<Rightarrow> API \<Rightarrow> world \<Rightarrow> outcome \<times> world" where
  "fetchAvatarClip e this = fetch e this (API_PATH e @ ''/user_client/avatar_clip'') no_options"

datatype leaderboard_type = board_clip | board_vote

definition fetchLeaderboard ::
    "env \<Rightarrow> API \<Rightarrow> leaderboard_type \<Rightarrow> (int \<times> int) option \<Rightarrow> world \<Rightarrow> outcome \<times> world" where
  "fetchLeaderboard e this type' cursor =
     fetch e this
       (getClipPath e this
          @ (if type' = board_clip then [] else ''/votes'')
          @ ''/leaderboard''
          @ (case cursor of
               None \<Rightarrow> []
             | Some (a, b) \<Rightarrow> ''?cursor='' @ the (JSON_stringify (JArr [JNum a, JNum b]))))
       no_options"

definition createGoal :: "env \<Rightarrow> API \<Rightarrow> jsval \<Rightarrow> world \<Rightarrow> outcome \<times> world" where
  "createGoal e this b =
     fetch e this (API_PATH e @ ''/user_client/goals'')
       \<lparr>method' = Some POST, isJSON = None, headers = None, body = b\<rparr>"

definition fetchGoals :: "env \<Rightarrow> API \<Rightarrow> string option \<Rightarrow> world \<Rightarrow> outcome \<times> world" where
  "fetchGoals e this l =
     fetch e this (API_PATH e @ ''/user_client'' @ locale_segment l @ ''/goals'') no_options"

definition claimAccount :: "env \<Rightarrow> API \<Rightarrow> world \<Rightarrow> outcome \<times> world" where
  "claimAccount e this w =
     fetch e this
       (API_PATH e @ ''/user_clients/'' @ userId (user_states w (API_user this)) @ ''/claim'')
       \<lparr>method' = Some POST, isJSON = None, headers = None, body = JUndefined\<rparr>
       w"

definition saveHasDownloaded :: "env \<Rightarrow> API \<Rightarrow> string \<Rightarrow> world \<Rightarrow> outcome \<times> world" where
  "saveHasDownloaded e this email =
     fetch e this (getLocalePath e this @ ''/downloaders/'' @ email)
       \<lparr>method' = Some POST, isJSON = None, headers = None, body = JUndefined\<rparr>"

datatype award_kind = kind_award | kind_notification

definition seenAwards :: "env \<Rightarrow> API \<Rightarrow> award_kind option \<Rightarrow> world \<Rightarrow> outcome \<times> world" where
  "seenAwards e this kind =
     fetch e this
       (API_PATH e @ ''/user_client/awards/seen''
          @ (if (case kind of None \<Rightarrow> kind_award | Some k \<Rightarrow> k) = kind_notification then ''?notification'' else []))
       \<lparr>method' = Some POST, isJSON = None, headers = None, body = JUndefined\<rparr>"

definition report :: "env \<Rightarrow> API \<Rightarrow> jsval \<Rightarrow> world \<Rightarrow> outcome \<times> world" where
  "report e this b =
     fetch e this (API_PATH e @ ''/reports'')
       \<lparr>method' = Some POST, isJSON = None, headers = None, body = b\<rparr>"

text \<open>The endpoint methods as one type of calls, and the method each call runs.\<close>

datatype endpoint =
    FetchRandomSentences "int option"
  | FetchRandomClips "int option"
  | UploadClip blob string string
  | SaveVote string bool
  | FetchValidatedHours
  | FetchDailyClipsCount
  | FetchDailyVotesCount
  | FetchLocaleMessages string
  | FetchCrossLocaleMessages
  | FetchRequestedLanguages
  | RequestLanguage string
  | FetchLanguageStats
  | FetchDocument document_name
  | SkipSentence string
  | FetchClipsStats "string option"
  | FetchClipVoices "string option"
  | FetchContributionActivity activity_from "string option"
  | FetchUserClients
  | FetchAccount
  | SaveAccount jsval
  | SubscribeToNewsletter string
  | SaveAvatar avatar_type "blob option"
  | SaveAvatarClip blob
  | FetchAvatarClip
  | FetchLeaderboard leaderboard_type "(int \<times> int) option"
  | CreateGoal jsval
  | FetchGoals "string option"
  | ClaimAccount
  | SaveHasDownloaded string
  | SeenAwards "award_kind option"
  | Report jsval

fun invoke :: "env \<Rightarrow> API \<Rightarrow> endpoint \<Rightarrow> world \<Rightarrow> outcome \<times> world" where
  "invoke e this (FetchRandomSentences count) = fetchRandomSentences e this count"
| "invoke e this (FetchRandomClips count) = fetchRandomClips e this count"
| "invoke e this (UploadClip b sentenceId sentence) = uploadClip e this b sentenceId sentence"
| "invoke e this (SaveVote i isValid) = saveVote e this i isValid"
| "invoke e this FetchValidatedHours = fetchValidatedHours e this"
| "invoke e this FetchDailyClipsCount = fetchDailyClipsCount e this"
| "invoke e this FetchDailyVotesCount = fetchDailyVotesCount e this"
| "invoke e this (FetchLocaleMessages l) = fetchLocaleMessages e this l"
| "invoke e this FetchCrossLocaleMessages = fetchCrossLocaleMessages e this"
| "invoke e this FetchRequestedLanguages = fetchRequestedLanguages e this"
| "invoke e this (RequestLanguage language) = requestLanguage e this language"
| "invoke e this FetchLanguageStats = fetchLanguageStats e this"
| "invoke e this (FetchDocument name) = fetchDocument e this name"
| "invoke e this (SkipSentence i) = skipSentence e this i"
| "invoke e this (FetchClipsStats l) = fetchClipsStats e this l"
| "invoke e this (FetchClipVoices l) = fetchClipVoices e this l"
| "invoke e this (FetchContributionActivity f l) = fetchContributionActivity e this f l"
| "invoke e this FetchUserClients = fetchUserClients e this"
| "invoke e this FetchAccount = fetchAccount e this"
| "invoke e this (SaveAccount d) = saveAccount e this d"
| "invoke e this (SubscribeToNewsletter email) = subscribeToNewsletter e this email"
| "invoke e this (SaveAvatar t f) = saveAvatar e this t f"
| "invoke e this (SaveAvatarClip b) = saveAvatarClip e this b"
| "invoke e this FetchAvatarClip = fetchAvatarClip e this"
| "invoke e this (FetchLeaderboard t cursor) = fetchLeaderboard e this t cursor"
| "invoke e this (CreateGoal b) = createGoal e this b"
| "invoke e this (FetchGoals l) = fetchGoals e this l"
| "invoke e this ClaimAccount = claimAccount e this"
| "invoke e this (SaveHasDownloaded email) = saveHasDownloaded e this email"
| "invoke e this (SeenAwards kind) = seenAwards e this kind"
| "invoke e this (Report b) = report e this b"

section \<open>Notions used by the properties\<close>

text \<open>The requests among the recorded events, in the order they were sent.\<close>

fun requests_of :: "event list \<Rightarrow> request list" where
  "requests_of [] = []"
| "requests_of (Fetch r # es) = r # requests_of es"
| "requests_of (ev # es) = requests_of es"

text \<open>
  A path-absolute reference: a slash that no slash or backslash follows, in a text free of
  the tab and line-break characters that URL parsing drops. The runtime resolves such a
  reference against the URL of the page, so the request goes to the page's own origin:
  it is a same-origin path in the words of the specification, whatever the origin is.
\<close>

definition path_absolute :: "string \<Rightarrow> bool" where
  "path_absolute p \<longleftrightarrow>
     startsWith p ''/'' \<and> \<not> startsWith p ''//'' \<and> \<not> startsWith p [CHR ''/'', CHR 0x5C]
     \<and> CHR 0x09 \<notin> set p \<and> CHR 0x0A \<notin> set p \<and> CHR 0x0D \<notin> set p"

text \<open>
  The values that JSON can carry: \<^verbatim>\<open>null\<close>, booleans, the safe integers, strings, arrays
  of such values and objects of such values whose property names differ.
\<close>

fun json_representable :: "jsval \<Rightarrow> bool"
  and json_elements :: "jsval list \<Rightarrow> bool"
  and json_properties :: "(string \<times> jsval) list \<Rightarrow> bool" where
  "json_representable JUndefined = False"
| "json_representable JNull = True"
| "json_representable (JBool b) = True"
| "json_representable (JNum n) = safe_integer n"
| "json_representable (JStr s) = True"
| "json_representable (JArr vs) = json_elements vs"
| "json_representable (JObj kvs) = (distinct (map fst kvs) \<and> json_properties kvs)"
| "json_representable (JBlob b) = False"
| "json_representable (JError n m) = False"
| "json_representable JNaN = False"
| "json_representable JInfinity = False"
| "json_representable JNegInfinity = False"
| "json_representable (JFunction f) = False"
| "json_representable (JSymbol d) = False"
| "json_representable (JDate t) = False"
| "json_elements [] = True"
| "json_elements (v # vs) = (json_representable v \<and> json_elements vs)"
| "json_properties [] = True"
| "json_properties ((k, v) # kvs) = (json_representable v \<and> json_properties kvs)"

text \<open>Every finite Number inside the value is one that the datatype models: a safe integer.\<close>

fun safe_numbers :: "jsval \<Rightarrow> bool"
  and safe_elements :: "jsval list \<Rightarrow> bool"
  and safe_properties :: "(string \<times> jsval) list \<Rightarrow> bool" where
  "safe_numbers (JNum n) = safe_integer n"
| "safe_numbers (JArr vs) = safe_elements vs"
| "safe_numbers (JObj kvs) = safe_properties kvs"
| "safe_numbers v = True"
| "safe_elements [] = True"
| "safe_elements (v # vs) = (safe_numbers v \<and> safe_elements vs)"
| "safe_properties [] = True"
| "safe_properties ((k, v) # kvs) = (safe_numbers v \<and> safe_properties kvs)"



text \<open>The path and options that an endpoint method hands to \<open>fetch\<close>.\<close>

fun dispatch_of :: "env \<Rightarrow> world \<Rightarrow> API \<Rightarrow> endpoint \<Rightarrow> string \<times> FetchOptions" where
  "dispatch_of e w this (FetchRandomSentences count) =
     (getLocalePath e this @ ''/sentences?count='' @ Number_toString (count_or_default count), no_options)"
| "dispatch_of e w this (FetchRandomClips count) =
     (getClipPath e this @ ''?count='' @ Number_toString (count_or_default count), no_options)"
| "dispatch_of e w this (UploadClip b sentenceId sentence) =
     (getClipPath e this,
      \<lparr>method' = Some POST, isJSON = None,
       headers = Some [''Content-Type'' \<mapsto> blob_type b,
                       ''sentence'' \<mapsto> encodeURIComponent sentence,
                       ''sentence_id'' \<mapsto> sentenceId],
       body = JBlob b\<rparr>)"
| "dispatch_of e w this (SaveVote i isValid) =
     (getClipPath e this @ ''/'' @ i @ ''/votes'',
      \<lparr>method' = Some POST, isJSON = None, headers = None, body = JObj [(''isValid'', JBool isValid)]\<rparr>)"
| "dispatch_of e w this FetchValidatedHours = (getClipPath e this @ ''/validated_hours'', no_options)"
| "dispatch_of e w this FetchDailyClipsCount = (getClipPath e this @ ''/daily_count'', no_options)"
| "dispatch_of e w this FetchDailyVotesCount = (getClipPath e this @ ''/votes/daily_count'', no_options)"
| "dispatch_of e w this (FetchLocaleMessages l) =
     (''/locales/'' @ l @ ''/messages.ftl'',
      \<lparr>method' = None, isJSON = Some False, headers = None, body = JUndefined\<rparr>)"
| "dispatch_of e w this FetchCrossLocaleMessages = (''/cross-locale-messages.json'', no_options)"
| "dispatch_of e w this FetchRequestedLanguages = (API_PATH e @ ''/requested_languages'', no_options)"
| "dispatch_of e w this (RequestLanguage language) =
     (API_PATH e @ ''/requested_languages'',
      \<lparr>method' = Some POST, isJSON = None, headers = None, body = JObj [(''language'', JStr language)]\<rparr>)"
| "dispatch_of e w this FetchLanguageStats = (API_PATH e @ ''/language_stats'', no_options)"
| "dispatch_of e w this (FetchDocument name) =
     (''/'' @ (case name of doc_privacy \<Rightarrow> ''privacy'' | doc_terms \<Rightarrow> ''terms'') @ ''/''
        @ (case API_locale this of None \<Rightarrow> ''null'' | Some l \<Rightarrow> l) @ ''.html'',
      \<lparr>method' = None, isJSON = Some False, headers = None, body = JUndefined\<rparr>)"
| "dispatch_of e w this (SkipSentence i) =
     (API_PATH e @ ''/skipped_sentences/'' @ i,
      \<lparr>method' = Some POST, isJSON = None, headers = None, body = JUndefined\<rparr>)"
| "dispatch_of e w this (FetchClipsStats l) = (API_PATH e @ locale_segment l @ ''/clips/stats'', no_options)"
| "dispatch_of e w this (FetchClipVoices l) = (API_PATH e @ locale_segment l @ ''/clips/voices'', no_options)"
| "dispatch_of e w this (FetchContributionActivity f l) =
     (API_PATH e @ locale_segment l @ ''/contribution_activity?from=''
        @ (case f of from_you \<Rightarrow> ''you'' | from_everyone \<Rightarrow> ''everyone''),
      no_options)"
| "dispatch_of e w this FetchUserClients = (API_PATH e @ ''/user_clients'', no_options)"
| "dispatch_of e w this FetchAccount = (API_PATH e @ ''/user_client'', no_options)"
| "dispatch_of e w this (SaveAccount d) =
     (API_PATH e @ ''/user_client'',
      \<lparr>method' = Some PATCH, isJSON = None, headers = None, body = d\<rparr>)"
| "dispatch_of e w this (SubscribeToNewsletter email) =
     (API_PATH e @ ''/newsletter/'' @ email,
      \<lparr>method' = Some POST, isJSON = None, headers = None, body = JUndefined\<rparr>)"
| "dispatch_of e w this (SaveAvatar t f) =
     (API_PATH e @ ''/user_client/avatar/''
        @ (case t of avatar_default \<Rightarrow> ''default'' | avatar_file \<Rightarrow> ''file''
           | avatar_gravatar \<Rightarrow> ''gravatar''),
      \<lparr>method' = Some POST, isJSON = Some False, headers = None,
       body = (case f of None \<Rightarrow> JUndefined | Some b \<Rightarrow> JBlob b)\<rparr>)"
| "dispatch_of e w this (SaveAvatarClip b) =
     (API_PATH e @ ''/user_client/avatar_clip'',
      \<lparr>method' = Some POST, isJSON = None, headers = Some [''Content-Type'' \<mapsto> blob_type b],
       body = JBlob b\<rparr>)"
| "dispatch_of e w this FetchAvatarClip = (API_PATH e @ ''/user_client/avatar_clip'', no_options)"
| "dispatch_of e w this (FetchLeaderboard t cursor) =
     (getClipPath e this @ (if t = board_clip then [] else ''/votes'') @ ''/leaderboard''
        @ (case cursor of
             None \<Rightarrow> []
           | Some (a, b) \<Rightarrow> ''?cursor='' @ the (JSON_stringify (JArr [JNum a, JNum b]))),
      no_options)"
| "dispatch_of e w this (CreateGoal b) =
     (API_PATH e @ ''/user_client/goals'',
      \<lparr>method' = Some POST, isJSON = None, headers = None, body = b\<rparr>)"
| "dispatch_of e w this (FetchGoals l) =
     (API_PATH e @ ''/user_client'' @ locale_segment l @ ''/goals'', no_options)"
| "dispatch_of e w this ClaimAccount =
     (API_PATH e @ ''/user_clients/'' @ userId (user_states w (API_user this)) @ ''/claim'',
      \<lparr>method' = Some POST, isJSON = None, headers = None, body = JUndefined\<rparr>)"
| "dispatch_of e w this (SaveHasDownloaded email) =
     (getLocalePath e this @ ''/downloaders/'' @ email,
      \<lparr>method' = Some POST, isJSON = None, headers = None, body = JUndefined\<rparr>)"
| "dispatch_of e w this (SeenAwards kind) =
     (API_PATH e @ ''/user_client/awards/seen''
        @ (if (case kind of None \<Rightarrow> kind_award | Some k \<Rightarrow> k) = kind_notification
           then ''?notification'' else []),
      \<lparr>method' = Some POST, isJSON = None, headers = None, body = JUndefined\<rparr>)"
| "dispatch_of e w this (Report b) =
     (API_PATH e @ ''/reports'',
      \<lparr>method' = Some POST, isJSON = None, headers = None, body = b\<rparr>)"

fun is_saveAvatarClip :: "endpoint \<Rightarrow> bool" where
  "is_saveAvatarClip (SaveAvatarClip b) = True"
| "is_saveAvatarClip c = False"

subsection \<open>A page, a server and a visitor to evaluate the properties on\<close>

definition example_server :: "nat \<Rightarrow> string \<Rightarrow> string \<Rightarrow> env" where
  "example_server st stt b =
     \<lparr>location_origin = ''https://voice.example'',
      USER_KEY = ''userdata'',
      transport = (\<lambda>req. Inr \<lparr>status = st, statusText = stt, text_body = b\<rparr>)\<rparr>"

definition example_user :: "jsval \<Rightarrow> User_State" where
  "example_user acc = \<lparr>userId = ''visitor-1'', account = acc\<rparr>"

definition example_world :: "jsval \<Rightarrow> world" where
  "example_world acc =
     \<lparr>localStorage = [''userdata'' \<mapsto> ''visitor-1''],
      events = [],
      user_states = (\<lambda>r. example_user acc),
      gateways = [\<lparr>API_locale = Some ''fr'', API_user = 0\<rparr>]\<rparr>"

definition example_gateway :: API where
  "example_gateway = \<lparr>API_locale = Some ''fr'', API_user = 0\<rparr>"

section \<open>Properties\<close>

subsection \<open>One request per dispatch\<close>

lemma requests_of_append: "requests_of (xs @ ys) = requests_of xs @ requests_of ys"
  by (induction xs rule: requests_of.induct) simp_all

lemma fetch_sends_one_request:
  "requests_of (events (snd (fetch e this path options w))) =
     requests_of (events w) @ [build_request e w this path options]"
  by (simp add: fetch_def Let_def requests_of_append split: sum.splits)

subsection \<open>Response classification\<close>

text \<open>
  Claim C1. When the response has status 401, the dispatch removes the key
  \<open>USER_KEY\<close> from the persisted store and triggers a reload, each exactly once (the events
  of the call are the request, one removal and one reload, in this order), and it hands no
  value to the caller: the promise is neither rejected nor fulfilled with a payload, it
  settles with \<^verbatim>\<open>undefined\<close>, the result of the bare \<^verbatim>\<open>return\<close>.
\<close>

theorem C1_unauthorized:
  assumes "transport e (build_request e w this path options) = Inr r"
    and "status r = 401"
  shows "fst (fetch e this path options w) = Resolved JUndefined
       \<and> localStorage (snd (fetch e this path options w)) = (localStorage w)(USER_KEY e := None)
       \<and> events (snd (fetch e this path options w)) =
           events w @ [Fetch (build_request e w this path options), RemoveItem (USER_KEY e), Reload]
       \<and> count_list (events (snd (fetch e this path options w))) (RemoveItem (USER_KEY e)) =
           count_list (events w) (RemoveItem (USER_KEY e)) + 1
       \<and> count_list (events (snd (fetch e this path options w))) Reload =
           count_list (events w) Reload + 1"
  using assms by (simp add: fetch_def Let_def)

theorem C1_unauthorized_witness:
  "fst (fetch (example_server 401 ''Unauthorized'' ''no session'') example_gateway
          ''https://voice.example/api/v1/user_client'' no_options (example_world JNull))
     = Resolved JUndefined
   \<and> localStorage (snd (fetch (example_server 401 ''Unauthorized'' ''no session'') example_gateway
          ''https://voice.example/api/v1/user_client'' no_options (example_world JNull))) ''userdata''
     = None
   \<and> count_list (events (snd (fetch (example_server 401 ''Unauthorized'' ''no session'')
          example_gateway ''https://voice.example/api/v1/user_client'' no_options
          (example_world JNull)))) Reload = 1"
  using C1_unauthorized [of "example_server 401 ''Unauthorized'' ''no session''"
      "example_world JNull" example_gateway "''https://voice.example/api/v1/user_client''"
      no_options "\<lparr>status = 401, statusText = ''Unauthorized'', text_body = ''no session''\<rparr>"]
  by (simp add: example_server_def example_world_def)

text \<open>
  Claim C2. When the response has a status of at least 400 other than 401, the dispatch
  is rejected with an Error. Its message is the token \<^verbatim>\<open>save_clip_error\<close> when the status
  text is that token, whatever the body says, and the whole body text otherwise: the
  status text is tested first, and it is the status text that is tested.
\<close>

theorem C2_error_classification:
  assumes "transport e (build_request e w this path options) = Inr r"
    and "400 \<le> status r" and "status r \<noteq> 401"
  shows "fetch e this path options w =
           (Rejected (JError ''Error''
              (if statusText r = ''save_clip_error'' then ''save_clip_error'' else text_body r)),
            w\<lparr>events := events w @ [Fetch (build_request e w this path options)]\<rparr>)"
  using assms by (simp add: fetch_def Let_def new_Error_def)

theorem C2_error_classification_witness:
  "fst (fetch (example_server 404 ''save_clip_error'' ''the body'') example_gateway
          ''https://voice.example/api/v1/fr/clips'' no_options (example_world JNull))
     = Rejected (JError ''Error'' ''save_clip_error'')
   \<and> fst (fetch (example_server 500 ''Internal Server Error'' ''internal error'') example_gateway
          ''https://voice.example/api/v1/fr/clips'' no_options (example_world JNull))
     = Rejected (JError ''Error'' ''internal error'')"
  using C2_error_classification [of "example_server 404 ''save_clip_error'' ''the body''"
      "example_world JNull" example_gateway "''https://voice.example/api/v1/fr/clips''" no_options
      "\<lparr>status = 404, statusText = ''save_clip_error'', text_body = ''the body''\<rparr>"]
    C2_error_classification [of "example_server 500 ''Internal Server Error'' ''internal error''"
      "example_world JNull" example_gateway "''https://voice.example/api/v1/fr/clips''" no_options
      "\<lparr>status = 500, statusText = ''Internal Server Error'', text_body = ''internal error''\<rparr>"]
  by (simp add: example_server_def)

subsection \<open>Headers\<close>

lemma path_absolute_not_prefixed:
  assumes "path_absolute p" and "origin \<noteq> []" and "\<not> startsWith origin ''/''"
  shows "\<not> startsWith p origin"
proof -
  from assms(1) obtain cs where p: "p = CHR ''/'' # cs"
    by (cases p) (auto simp add: path_absolute_def)
  from assms(2,3) obtain d ds where o: "origin = d # ds" "d \<noteq> CHR ''/''"
    by (cases origin) auto
  show ?thesis using o(2) by (auto simp add: p o(1))
qed

text \<open>
  Claim C3, as amended. The gateway attaches the header \<^verbatim>\<open>client_id\<close>, set to the user's
  identifier, when the text of the path begins with the text of the page's origin and the
  user has no account. When the path does not begin with that text, or when an account is
  present, the gateway adds no such header: the request has a \<^verbatim>\<open>client_id\<close> header only
  if the caller supplied one. The first case includes every path-absolute reference, since
  an origin begins with its scheme and not with a slash: these same-origin paths never
  get the header from the gateway.
\<close>

theorem C3_client_id_header:
  "requests_of (events (snd (fetch e this path options w))) =
     requests_of (events w) @ [build_request e w this path options]
   \<and> (startsWith path (location_origin e) \<and> \<not> truthy (account (user_states w (API_user this)))
        \<longrightarrow> req_headers (build_request e w this path options) ''client_id'' =
              Some (userId (user_states w (API_user this))))
   \<and> (\<not> startsWith path (location_origin e) \<or> truthy (account (user_states w (API_user this)))
        \<longrightarrow> req_headers (build_request e w this path options) ''client_id'' =
              (case headers options of None \<Rightarrow> None | Some h \<Rightarrow> h ''client_id''))
   \<and> (path_absolute path \<and> location_origin e \<noteq> [] \<and> \<not> startsWith (location_origin e) ''/''
        \<longrightarrow> req_headers (build_request e w this path options) ''client_id'' =
              (case headers options of None \<Rightarrow> None | Some h \<Rightarrow> h ''client_id''))"
proof -
  have rel: "\<not> startsWith path (location_origin e)"
    if "path_absolute path" "location_origin e \<noteq> []" "\<not> startsWith (location_origin e) ''/''"
    using that by (rule path_absolute_not_prefixed)
  show ?thesis
    using rel
    by (auto simp add: fetch_sends_one_request build_request_def finalHeaders_def Let_def
          map_add_def split: option.splits)
qed

theorem C3_client_id_header_witness:
  "req_headers (build_request (example_server 200 ''OK'' ''{}'') (example_world JNull) example_gateway
      ''https://voice.example/api/v1/user_client'' no_options) ''client_id'' = Some ''visitor-1''
   \<and> req_headers (build_request (example_server 200 ''OK'' ''{}'')
      (example_world (JObj [(''email'', JStr ''kim@voice.example'')])) example_gateway
      ''https://voice.example/api/v1/user_client'' no_options) ''client_id'' = None
   \<and> req_headers (build_request (example_server 200 ''OK'' ''{}'') (example_world JNull) example_gateway
      ''/cross-locale-messages.json'' no_options) ''client_id'' = None
   \<and> req_headers (build_request (example_server 200 ''OK'' ''{}'') (example_world JNull) example_gateway
      ''HTTPS://voice.example/api/v1/user_client'' no_options) ''client_id'' = None"
  using C3_client_id_header [of "example_server 200 ''OK'' ''{}''" example_gateway
      "''https://voice.example/api/v1/user_client''" no_options "example_world JNull"]
    C3_client_id_header [of "example_server 200 ''OK'' ''{}''" example_gateway
      "''https://voice.example/api/v1/user_client''" no_options
      "example_world (JObj [(''email'', JStr ''kim@voice.example'')])"]
    C3_client_id_header [of "example_server 200 ''OK'' ''{}''" example_gateway
      "''/cross-locale-messages.json''" no_options "example_world JNull"]
    C3_client_id_header [of "example_server 200 ''OK'' ''{}''" example_gateway
      "''HTTPS://voice.example/api/v1/user_client''" no_options "example_world JNull"]
  by (simp add: example_server_def example_world_def example_user_def example_gateway_def
        no_options_def path_absolute_def)

text \<open>
  Claim C3 as stated fails: the path \<^verbatim>\<open>/locales/en/messages.ftl\<close> that
  \<open>fetchLocaleMessages\<close> requests is a path-absolute reference, hence same-origin, the
  visitor has no account, and the one request sent carries no \<^verbatim>\<open>client_id\<close> header.
\<close>

theorem C3_counterexample:
  "path_absolute ''/locales/en/messages.ftl''
   \<and> \<not> truthy (account (user_states (example_world JNull) (API_user example_gateway)))
   \<and> length (requests_of (events (snd (fetchLocaleMessages (example_server 200 ''OK'' ''hello'')
         example_gateway ''en'' (example_world JNull))))) = 1
   \<and> req_headers (hd (requests_of (events (snd (fetchLocaleMessages (example_server 200 ''OK'' ''hello'')
         example_gateway ''en'' (example_world JNull)))))) ''client_id'' = None"
  by (simp add: path_absolute_def example_server_def example_world_def
        example_gateway_def example_user_def fetchLocaleMessages_def fetch_sends_one_request
        build_request_def finalHeaders_def)

text \<open>
  Claim C5. With content-mode JSON (the default, or \<^verbatim>\<open>isJSON: true\<close>) the header
  \<^verbatim>\<open>Content-Type\<close> of the request is the caller's when the caller supplies one and the
  JSON default otherwise; every header the caller supplies reaches the request with the
  caller's value (\<^verbatim>\<open>client_id\<close> apart, see C9). In particular the request of \<open>uploadClip\<close>,
  whose body is the Blob itself, carries the media type of the Blob as its content type.
\<close>

theorem C5_content_type:
  assumes "isJSON options \<noteq> Some False"
  shows "req_headers (build_request e w this path options) ''Content-Type'' =
           (case headers options of
              None \<Rightarrow> Some ''application/json; charset=utf-8''
            | Some h \<Rightarrow>
                (case h ''Content-Type'' of
                   None \<Rightarrow> Some ''application/json; charset=utf-8''
                 | Some v \<Rightarrow> Some v))
       \<and> (\<forall>h k v. headers options = Some h \<and> h k = Some v \<and> k \<noteq> ''client_id'' \<longrightarrow>
             req_headers (build_request e w this path options) k = Some v)
       \<and> (\<forall>b sentenceId sentence. \<exists>req.
             requests_of (events (snd (uploadClip e this b sentenceId sentence w))) =
               requests_of (events w) @ [req]
             \<and> req_headers req ''Content-Type'' = Some (blob_type b)
             \<and> req_body req = Some (BlobBody b))"
  using assms
  by (auto simp add: fetch_sends_one_request build_request_def finalHeaders_def Let_def map_add_def
        uploadClip_def encode_body_def
           split: option.splits)

theorem C5_content_type_witness:
  "req_headers (build_request (example_server 200 ''OK'' ''{}'') (example_world JNull) example_gateway
      ''https://voice.example/api/v1/fr/clips''
      \<lparr>method' = Some POST, isJSON = None,
       headers = Some [''Content-Type'' \<mapsto> ''audio/ogg''],
       body = JBlob \<lparr>blob_type = ''audio/ogg'', blob_data = ''OggS''\<rparr>\<rparr>) ''Content-Type''
     = Some ''audio/ogg''
   \<and> req_headers (build_request (example_server 200 ''OK'' ''{}'') (example_world JNull) example_gateway
      ''https://voice.example/api/v1/fr/clips'' no_options) ''Content-Type''
     = Some ''application/json; charset=utf-8''"
  using C5_content_type [of "\<lparr>method' = Some POST, isJSON = None,
       headers = Some [''Content-Type'' \<mapsto> ''audio/ogg''],
       body = JBlob \<lparr>blob_type = ''audio/ogg'', blob_data = ''OggS''\<rparr>\<rparr>"
      "example_server 200 ''OK'' ''{}''" "example_world JNull" example_gateway
      "''https://voice.example/api/v1/fr/clips''"]
    C5_content_type [of no_options "example_server 200 ''OK'' ''{}''" "example_world JNull"
      example_gateway "''https://voice.example/api/v1/fr/clips''"]
  by (simp add: no_options_def)

text \<open>
  Claim C9. When the header \<^verbatim>\<open>client_id\<close> is attached (the path begins with the origin, the
  user has no account), it is assigned after the merge: a \<^verbatim>\<open>client_id\<close> header of the
  caller's is overwritten by the user's identifier, while every other header of the
  caller's keeps the caller's value.
\<close>

theorem C9_client_id_overwrites:
  assumes "startsWith path (location_origin e)"
    and "\<not> truthy (account (user_states w (API_user this)))"
    and "headers options = Some h" and "h ''client_id'' = Some v"
  shows "requests_of (events (snd (fetch e this path options w))) =
           requests_of (events w) @ [build_request e w this path options]
       \<and> req_headers (build_request e w this path options) ''client_id'' =
           Some (userId (user_states w (API_user this)))
       \<and> (\<forall>k u. h k = Some u \<and> k \<noteq> ''client_id'' \<longrightarrow>
             req_headers (build_request e w this path options) k = Some u)"
  using assms
  by (simp add: fetch_sends_one_request build_request_def finalHeaders_def Let_def map_add_def
           split: option.splits)

theorem C9_client_id_overwrites_witness:
  "req_headers (build_request (example_server 200 ''OK'' ''{}'') (example_world JNull) example_gateway
      ''https://voice.example/api/v1/user_client''
      \<lparr>method' = None, isJSON = None,
       headers = Some [''client_id'' \<mapsto> ''someone-else'', ''X-Trace'' \<mapsto> ''1''],
       body = JUndefined\<rparr>) ''client_id'' = Some ''visitor-1''
   \<and> req_headers (build_request (example_server 200 ''OK'' ''{}'') (example_world JNull) example_gateway
      ''https://voice.example/api/v1/user_client''
      \<lparr>method' = None, isJSON = None,
       headers = Some [''client_id'' \<mapsto> ''someone-else'', ''X-Trace'' \<mapsto> ''1''],
       body = JUndefined\<rparr>) ''X-Trace'' = Some ''1''"
  using C9_client_id_overwrites [of "''https://voice.example/api/v1/user_client''"
      "example_server 200 ''OK'' ''{}''" "example_world JNull" example_gateway
      "\<lparr>method' = None, isJSON = None,
       headers = Some [''client_id'' \<mapsto> ''someone-else'', ''X-Trace'' \<mapsto> ''1''],
       body = JUndefined\<rparr>"
      "[''client_id'' \<mapsto> ''someone-else'', ''X-Trace'' \<mapsto> ''1'']" "''someone-else''"]
  by (simp add: example_server_def example_world_def example_user_def example_gateway_def)

subsection \<open>Body encoding\<close>

text \<open>
  Claim C10. A body that is present but falsy (\<^verbatim>\<open>false\<close>, \<^verbatim>\<open>0\<close>, the empty string,
  \<^verbatim>\<open>null\<close>) is treated as an absent one: the request has no body, the value is not
  serialised.
\<close>

theorem C10_falsy_body_omitted:
  assumes "\<not> truthy (body options)"
  shows "requests_of (events (snd (fetch e this path options w))) =
           requests_of (events w) @ [build_request e w this path options]
       \<and> req_body (build_request e w this path options) = None"
  using assms by (simp add: fetch_sends_one_request build_request_def encode_body_def)

theorem C10_falsy_body_omitted_witness:
  "req_body (build_request (example_server 200 ''OK'' ''{}'') (example_world JNull) example_gateway
      ''https://voice.example/api/v1/reports''
      \<lparr>method' = Some POST, isJSON = None, headers = None, body = JBool False\<rparr>) = None
   \<and> req_body (build_request (example_server 200 ''OK'' ''{}'') (example_world JNull) example_gateway
      ''https://voice.example/api/v1/reports''
      \<lparr>method' = Some POST, isJSON = None, headers = None, body = JNum 0\<rparr>) = None
   \<and> req_body (build_request (example_server 200 ''OK'' ''{}'') (example_world JNull) example_gateway
      ''https://voice.example/api/v1/reports''
      \<lparr>method' = Some POST, isJSON = None, headers = None, body = JStr []\<rparr>) = None"
  using C10_falsy_body_omitted [of "\<lparr>method' = Some POST, isJSON = None, headers = None, body = JBool False\<rparr>"
      "example_server 200 ''OK'' ''{}''" example_gateway "''https://voice.example/api/v1/reports''"
      "example_world JNull"]
    C10_falsy_body_omitted [of "\<lparr>method' = Some POST, isJSON = None, headers = None, body = JNum 0\<rparr>"
      "example_server 200 ''OK'' ''{}''" example_gateway "''https://voice.example/api/v1/reports''"
      "example_world JNull"]
    C10_falsy_body_omitted [of "\<lparr>method' = Some POST, isJSON = None, headers = None, body = JStr []\<rparr>"
      "example_server 200 ''OK'' ''{}''" example_gateway "''https://voice.example/api/v1/reports''"
      "example_world JNull"]
  by simp

subsection \<open>\<^verbatim>\<open>JSON.parse\<close> inverts \<^verbatim>\<open>JSON.stringify\<close> on the values of JSON\<close>




















lemma skip_ws_no_ws: "s \<noteq> [] \<Longrightarrow> \<not> is_ws (hd s) \<Longrightarrow> skip_ws (s @ rest) = s @ rest"
  by (cases s) (simp_all add: skip_ws_def)


lemma QuoteJSONString_append:
  "QuoteJSONString k @ rest = CHR 0x22 # concat (map json_escape k) @ CHR 0x22 # rest"
  by (simp add: QuoteJSONString_def)


















declare parse_value.simps [simp del] parse_elements.simps [simp del] parse_members.simps [simp del]



lemma parse_defined:
  "parse_value n s = Some (v, r) \<longrightarrow> v \<noteq> JUndefined"
  "parse_elements n acc s = Some (v, r) \<longrightarrow> v \<noteq> JUndefined"
  "parse_members n kacc s = Some (v, r) \<longrightarrow> v \<noteq> JUndefined"
  by (induction n s and n acc s and n kacc s arbitrary: v r and v r and v r
        rule: parse_value_parse_elements_parse_members.induct)
     (auto simp add: parse_value.simps parse_elements.simps parse_members.simps parse_number_def Let_def
           split: list.splits if_splits option.splits prod.splits)

lemma JSON_parse_defined: "JSON_parse s \<noteq> Some JUndefined"
  using parse_defined(1) by (auto simp add: JSON_parse_def split: option.splits if_splits)

text \<open>A dispatch that is answered with a status other than 401 never settles with
  \<^verbatim>\<open>undefined\<close>: that outcome marks the 401 path.\<close>

lemma fetch_payload_defined:
  assumes "transport e (build_request e w this path options) = Inr r" and "status r \<noteq> 401"
  shows "fst (fetch e this path options w) \<noteq> Resolved JUndefined"
  using assms JSON_parse_defined [of "text_body r"]
  by (auto simp add: fetch_def Let_def response_json_def split: option.splits)


lemma representable_safe:
  "json_representable v \<longrightarrow> safe_numbers v"
  "json_elements vs \<longrightarrow> safe_elements vs"
  "json_properties kvs \<longrightarrow> safe_properties kvs"
  by (induction v and vs and kvs rule: safe_numbers_safe_elements_safe_properties.induct) simp_all




subsection \<open>Paths\<close>

text \<open>
  Claim C6. The locale-scoped root is the API root, a slash and the locale when a locale
  is set, and the API root alone when none is (the test is truthiness, so the empty string
  counts as no locale). With the locale \<^verbatim>\<open>fr\<close>, fetching random sentences with count 3
  sends one request, a GET to the path \<^verbatim>\<open>.../api/v1/fr/sentences?count=3\<close>.
\<close>

theorem C6_locale_path:
  "(\<forall>l. API_locale this = Some l \<and> l \<noteq> [] \<longrightarrow> getLocalePath e this = API_PATH e @ ''/'' @ l)
 \<and> (API_locale this = None \<or> API_locale this = Some [] \<longrightarrow> getLocalePath e this = API_PATH e)
 \<and> (API_locale this = Some ''fr'' \<longrightarrow>
       (\<exists>req. requests_of (events (snd (fetchRandomSentences e this (Some 3) w))) =
                 requests_of (events w) @ [req]
            \<and> req_path req = location_origin e @ ''/api/v1/fr/sentences?count=3''
            \<and> req_method req = GET))"
  by (auto simp add: getLocalePath_def fetchRandomSentences_def fetch_sends_one_request 
      build_request_def API_PATH_def no_options_def count_or_default_def Number_toString_def
      show_nat.simps digit_char_def)

theorem C6_locale_path_witness:
  "getLocalePath (example_server 200 ''OK'' ''[]'') example_gateway = ''https://voice.example/api/v1/fr''
   \<and> getLocalePath (example_server 200 ''OK'' ''[]'') \<lparr>API_locale = None, API_user = 0\<rparr>
       = ''https://voice.example/api/v1''
   \<and> (\<exists>req. requests_of (events (snd (fetchRandomSentences (example_server 200 ''OK'' ''[]'')
            example_gateway (Some 3) (example_world JNull)))) = [req]
          \<and> req_path req = ''https://voice.example/api/v1/fr/sentences?count=3''
          \<and> req_method req = GET)"
  using C6_locale_path [of example_gateway "example_server 200 ''OK'' ''[]''" "example_world JNull"]
    C6_locale_path [of "\<lparr>API_locale = None, API_user = 0\<rparr>" "example_server 200 ''OK'' ''[]''"
      "example_world JNull"]
  by (simp add: example_gateway_def example_server_def example_world_def API_PATH_def)

subsection \<open>Re-scoping\<close>

text \<open>
  Claim C7. For every gateway of the heap and every locale, \<open>forLocale\<close> returns a new
  gateway (a fresh reference) that holds the same reference to the user state as the
  original; the original and every other gateway keep their fields, and the user states,
  the persisted store and the events are untouched.
\<close>

theorem C7_forLocale:
  assumes "this < length (gateways w)"
  shows "\<exists>new w'. forLocale this l w = Some (new, w')
       \<and> new \<noteq> this \<and> new = length (gateways w) \<and> length (gateways w') = Suc (length (gateways w))
       \<and> API_user (gateways w' ! new) = API_user (gateways w ! this)
       \<and> API_locale (gateways w' ! new) = Some l
       \<and> gateways w' ! this = gateways w ! this
       \<and> (\<forall>a < length (gateways w). gateways w' ! a = gateways w ! a)
       \<and> user_states w' = user_states w
       \<and> localStorage w' = localStorage w
       \<and> events w' = events w"
  using assms by (auto simp add: forLocale_def new_API_def nth_append)

theorem C7_forLocale_witness:
  "\<exists>new w'. forLocale 0 ''de'' (example_world JNull) = Some (new, w')
     \<and> new \<noteq> 0
     \<and> API_user (gateways w' ! new) = 0
     \<and> API_locale (gateways w' ! new) = Some ''de''
     \<and> gateways w' ! 0 = \<lparr>API_locale = Some ''fr'', API_user = 0\<rparr>"
  using C7_forLocale [of 0 "example_world JNull" "''de''"]
  by (auto simp add: example_world_def)

subsection \<open>Failure propagation\<close>

text \<open>Every endpoint method has the effects of the one dispatch it makes.\<close>

lemma invoke_effects:
  "snd (invoke e this c w) = snd (fetch e this (fst (dispatch_of e w this c)) (snd (dispatch_of e w this c)) w)"
  by (cases c)
     (simp_all add: fetchRandomSentences_def fetchRandomClips_def uploadClip_def saveVote_def
        fetchValidatedHours_def fetchDailyClipsCount_def fetchDailyVotesCount_def
        fetchLocaleMessages_def fetchCrossLocaleMessages_def fetchRequestedLanguages_def
        requestLanguage_def fetchLanguageStats_def fetchDocument_def skipSentence_def
        fetchClipsStats_def fetchClipVoices_def fetchContributionActivity_def
        fetchUserClients_def fetchAccount_def saveAccount_def subscribeToNewsletter_def
        saveAvatar_def saveAvatarClip_def fetchAvatarClip_def fetchLeaderboard_def
        createGoal_def fetchGoals_def claimAccount_def saveHasDownloaded_def seenAwards_def
        report_def then_promise_def catch_promise_def split: outcome.splits prod.splits)

text \<open>
  Claim C8. When the dispatch an endpoint method makes is rejected, \<open>saveAvatarClip\<close>
  catches the reason and resolves with it, and every other endpoint method is rejected
  with that reason.
\<close>

theorem C8_failure_propagation:
  assumes "fetch e this (fst (dispatch_of e w this c)) (snd (dispatch_of e w this c)) w
             = (Rejected r, w')"
  shows "invoke e this c w = (if is_saveAvatarClip c then (Resolved r, w') else (Rejected r, w'))"
  using assms
  by (cases c)
     (simp_all add: fetchRandomSentences_def fetchRandomClips_def uploadClip_def saveVote_def
        fetchValidatedHours_def fetchDailyClipsCount_def fetchDailyVotesCount_def
        fetchLocaleMessages_def fetchCrossLocaleMessages_def fetchRequestedLanguages_def
        requestLanguage_def fetchLanguageStats_def fetchDocument_def skipSentence_def
        fetchClipsStats_def fetchClipVoices_def fetchContributionActivity_def
        fetchUserClients_def fetchAccount_def saveAccount_def subscribeToNewsletter_def
        saveAvatar_def saveAvatarClip_def fetchAvatarClip_def fetchLeaderboard_def
        createGoal_def fetchGoals_def claimAccount_def saveHasDownloaded_def seenAwards_def
        report_def then_promise_def catch_promise_def)

theorem C8_failure_propagation_witness:
  "fst (invoke (example_server 500 ''Internal Server Error'' ''internal error'') example_gateway
          FetchAccount (example_world JNull))
     = Rejected (JError ''Error'' ''internal error'')
   \<and> fst (invoke (example_server 500 ''Internal Server Error'' ''internal error'') example_gateway
          (SaveAvatarClip \<lparr>blob_type = ''audio/ogg'', blob_data = ''OggS''\<rparr>) (example_world JNull))
     = Resolved (JError ''Error'' ''internal error'')"
proof -
  let ?E = "example_server 500 ''Internal Server Error'' ''internal error''"
  let ?W = "example_world JNull"
  let ?c = "SaveAvatarClip \<lparr>blob_type = ''audio/ogg'', blob_data = ''OggS''\<rparr>"
  have a: "fetch ?E example_gateway (fst (dispatch_of ?E ?W example_gateway FetchAccount))
             (snd (dispatch_of ?E ?W example_gateway FetchAccount)) ?W
           = (Rejected (JError ''Error'' ''internal error''),
              snd (fetch ?E example_gateway (fst (dispatch_of ?E ?W example_gateway FetchAccount))
                     (snd (dispatch_of ?E ?W example_gateway FetchAccount)) ?W))"
    by (simp add: fetch_def Let_def example_server_def new_Error_def)
  have b: "fetch ?E example_gateway (fst (dispatch_of ?E ?W example_gateway ?c))
             (snd (dispatch_of ?E ?W example_gateway ?c)) ?W
           = (Rejected (JError ''Error'' ''internal error''),
              snd (fetch ?E example_gateway (fst (dispatch_of ?E ?W example_gateway ?c))
                     (snd (dispatch_of ?E ?W example_gateway ?c)) ?W))"
    by (simp add: fetch_def Let_def example_server_def new_Error_def)
  show ?thesis
    using C8_failure_propagation [OF a] C8_failure_propagation [OF b] by simp
qed

end
